theory Spec2Isabelle
  imports Main "HOL-Library.AList" "HOL-Library.Sublist"
begin

section \<open>Values exchanged with the caller\<close>

text \<open>
  The service of \<^verbatim>\<open>SandBoxedPythonLab.py\<close> reads one JSON document per line, so every
  value it handles is what \<^verbatim>\<open>json.loads\<close> builds: \<^verbatim>\<open>None\<close>, a boolean, an integer, a
  float, a string, a list or a dictionary with string keys. A float is held as its
  canonical \<^verbatim>\<open>repr\<close> (the code only tests floats for truth and prints them). A handler
  may also return an object that \<^verbatim>\<open>json.dumps\<close> cannot encode (a script may bind
  \<^verbatim>\<open>result\<close> to an array or a function): \<open>PObject\<close>, named by its class.
  Strings are lists of 8-bit characters.
\<close>

datatype pyval =
    PNone
  | PBool bool
  | PInt int
  | PFloat string
  | PStr string
  | PList "pyval list"
  | PDict "(string \<times> pyval) list"
  | PObject string

text \<open>
  A fault is a raised instance of \<^verbatim>\<open>Exception\<close> or of a subclass: its class name and its
  \<^verbatim>\<open>str()\<close>. Exceptions outside that class (\<^verbatim>\<open>KeyboardInterrupt\<close>, \<^verbatim>\<open>SystemExit\<close>) are
  not faults in this development.
\<close>

datatype fault = Fault (exc_class: string) (exc_str: string)

definition ValueError :: "string \<Rightarrow> fault" where
  "ValueError m = Fault ''ValueError'' m"

definition TypeError :: "string \<Rightarrow> fault" where
  "TypeError m = Fault ''TypeError'' m"

definition FileNotFoundError :: "string \<Rightarrow> fault" where
  "FileNotFoundError m = Fault ''FileNotFoundError'' m"

definition quoted :: "string \<Rightarrow> string" where
  "quoted s = [CHR 0x27] @ s @ [CHR 0x27]"

fun truthy :: "pyval \<Rightarrow> bool" where
  "truthy PNone = False"
| "truthy (PBool b) = b"
| "truthy (PInt i) = (i \<noteq> 0)"
| "truthy (PFloat r) = (r \<noteq> ''0.0'' \<and> r \<noteq> ''-0.0'')"
| "truthy (PStr s) = (s \<noteq> [])"
| "truthy (PList xs) = (xs \<noteq> [])"
| "truthy (PDict kvs) = (kvs \<noteq> [])"
| "truthy (PObject c) = True"

definition py_or :: "pyval \<Rightarrow> pyval \<Rightarrow> pyval" where
  "py_or a b = (if truthy a then a else b)"

fun isinstance_str :: "pyval \<Rightarrow> bool" where
  "isinstance_str (PStr s) = True"
| "isinstance_str v = False"

fun isinstance_list :: "pyval \<Rightarrow> bool" where
  "isinstance_list (PList xs) = True"
| "isinstance_list v = False"

fun type_name :: "pyval \<Rightarrow> string" where
  "type_name PNone = ''NoneType''"
| "type_name (PBool b) = ''bool''"
| "type_name (PInt i) = ''int''"
| "type_name (PFloat r) = ''float''"
| "type_name (PStr s) = ''str''"
| "type_name (PList xs) = ''list''"
| "type_name (PDict kvs) = ''dict''"
| "type_name (PObject c) = c"

text \<open>\<^verbatim>\<open>d.get(k, default)\<close>; on a value that is no dictionary the attribute is missing.\<close>

fun dict_get :: "pyval \<Rightarrow> string \<Rightarrow> pyval \<Rightarrow> fault + pyval" where
  "dict_get (PDict kvs) k d = Inr (case map_of kvs k of Some v \<Rightarrow> v | None \<Rightarrow> d)"
| "dict_get v k d =
     Inl (Fault ''AttributeError''
       (quoted (type_name v) @ '' object has no attribute '' @ quoted ''get''))"

text \<open>What \<^verbatim>\<open>json.dumps\<close> accepts.\<close>

fun serializable :: "pyval \<Rightarrow> bool" where
  "serializable (PObject c) = False"
| "serializable (PList xs) = list_all serializable xs"
| "serializable (PDict kvs) = list_all (\<lambda>kv. serializable (snd kv)) kvs"
| "serializable v = True"

fun object_classes :: "pyval \<Rightarrow> string list" where
  "object_classes (PObject c) = [c]"
| "object_classes (PList xs) = concat (map object_classes xs)"
| "object_classes (PDict kvs) = concat (map (\<lambda>kv. object_classes (snd kv)) kvs)"
| "object_classes v = []"

text \<open>Decimal digits of an integer, as \<^verbatim>\<open>str\<close> prints it.\<close>

fun str_nat :: "nat \<Rightarrow> string" where
  "str_nat n =
     (if n < 10 then [''0123456789'' ! n]
      else str_nat (n div 10) @ [''0123456789'' ! (n mod 10)])"

declare str_nat.simps [simp del]

definition str_int :: "int \<Rightarrow> string" where
  "str_int i = (if i < 0 then ''-'' @ str_nat (nat (- i)) else str_nat (nat i))"

text \<open>
  \<^verbatim>\<open>str(v)\<close>, as an f-string formats a value. The text of a list or a dictionary is
  CPython's \<^verbatim>\<open>repr\<close> of the container, taken as a parameter.
\<close>

fun py_str :: "(pyval \<Rightarrow> string) \<Rightarrow> pyval \<Rightarrow> string" where
  "py_str crepr PNone = ''None''"
| "py_str crepr (PBool b) = (if b then ''True'' else ''False'')"
| "py_str crepr (PInt i) = str_int i"
| "py_str crepr (PFloat r) = r"
| "py_str crepr (PStr s) = s"
| "py_str crepr v = crepr v"

section \<open>Strings\<close>

text \<open>\<^verbatim>\<open>s.replace(old, new)\<close>: occurrences are found left to right and do not overlap.\<close>

function py_replace :: "string \<Rightarrow> string \<Rightarrow> string \<Rightarrow> string" where
  "py_replace old new s =
     (if old = [] then new @ concat (map (\<lambda>c. c # new) s)
      else if s = [] then []
      else if prefix old s then new @ py_replace old new (drop (length old) s)
      else hd s # py_replace old new (tl s))"
  by pat_completeness auto
termination
  by (relation "measure (\<lambda>(old, new, s). length s)") auto

declare py_replace.simps [simp del]

text \<open>\<^verbatim>\<open>s.split("/")\<close> and \<^verbatim>\<open>"/".join(xs)\<close>.\<close>

fun split_slash :: "string \<Rightarrow> string list" where
  "split_slash [] = [[]]"
| "split_slash (c # cs) =
     (if c = CHR ''/'' then [] # split_slash cs
      else (case split_slash cs of w # ws \<Rightarrow> (c # w) # ws | [] \<Rightarrow> [[c]]))"

fun join_slash :: "string list \<Rightarrow> string" where
  "join_slash [] = []"
| "join_slash [x] = x"
| "join_slash (x # y # ys) = x @ ''/'' @ join_slash (y # ys)"

text \<open>\<^verbatim>\<open>s.strip()\<close> on ASCII text.\<close>

definition py_isspace :: "char \<Rightarrow> bool" where
  "py_isspace c = (c \<in> set [CHR 0x09, CHR 0x0A, CHR 0x0B, CHR 0x0C, CHR 0x0D,
                             CHR 0x1C, CHR 0x1D, CHR 0x1E, CHR 0x1F, CHR 0x20])"

definition py_strip :: "string \<Rightarrow> string" where
  "py_strip s = rev (dropWhile py_isspace (rev (dropWhile py_isspace s)))"

section \<open>Paths\<close>

text \<open>
  A \<^verbatim>\<open>pathlib\<close> path on a POSIX system is its anchor (empty for a relative path, \<^verbatim>\<open>/\<close>
  or \<^verbatim>\<open>//\<close> for an absolute one) and its parts. Parsing drops empty parts and \<^verbatim>\<open>.\<close>
  parts, keeps \<^verbatim>\<open>..\<close> parts, and keeps a root of exactly two slashes. The operator
  \<^verbatim>\<open>/\<close> appends the parts of a relative right operand; an absolute right operand
  replaces the left one.
\<close>

datatype pure_path = PurePath (anchor: string) (parts: "string list")

definition posix_root :: "string \<Rightarrow> string" where
  "posix_root s =
     (if take 2 s = ''//'' \<and> take 3 s \<noteq> ''///'' then ''//''
      else if take 1 s = ''/'' then ''/''
      else [])"

definition parse_parts :: "string \<Rightarrow> string list" where
  "parse_parts s = filter (\<lambda>x. x \<noteq> [] \<and> x \<noteq> ''.'') (split_slash s)"

definition parse_path :: "string \<Rightarrow> pure_path" where
  "parse_path s = PurePath (posix_root s) (parse_parts s)"

definition joinpath :: "pure_path \<Rightarrow> string \<Rightarrow> pure_path" where
  "joinpath p s =
     (let q = parse_path s
      in if anchor q \<noteq> [] then q else PurePath (anchor p) (parts p @ parts q))"

definition parent :: "pure_path \<Rightarrow> pure_path" where
  "parent p = PurePath (anchor p) (butlast (parts p))"

definition is_relative_to :: "pure_path \<Rightarrow> pure_path \<Rightarrow> bool" where
  "is_relative_to p r = (anchor p = anchor r \<and> prefix (parts r) (parts p))"

definition strictly_below :: "pure_path \<Rightarrow> pure_path \<Rightarrow> bool" where
  "strictly_below r p = (anchor p = anchor r \<and> strict_prefix (parts r) (parts p))"

definition relative_to :: "pure_path \<Rightarrow> pure_path \<Rightarrow> pure_path" where
  "relative_to p r = PurePath [] (drop (length (parts r)) (parts p))"

definition as_posix :: "pure_path \<Rightarrow> string" where
  "as_posix p =
     (if anchor p = [] \<and> parts p = [] then ''.'' else anchor p @ join_slash (parts p))"

definition has_nul :: "pure_path \<Rightarrow> bool" where
  "has_nul p = list_ex (\<lambda>x. CHR 0x00 \<in> set x) (parts p)"

text \<open>Parts as parsing leaves them: not empty and free of slashes.\<close>

definition clean :: "string list \<Rightarrow> bool" where
  "clean xs = (\<forall>x \<in> set xs. x \<noteq> [] \<and> CHR ''/'' \<notin> set x)"

section \<open>The file system\<close>

text \<open>
  The file system is a table from paths to nodes, in the order the entries were made
  (the order \<^verbatim>\<open>glob\<close> walks them in is left open by the operating system). A regular
  file holds the text written to it. Operations fail for structural reasons only: there
  are no permissions, quotas, links or length limits, and names are case sensitive.
\<close>

datatype node = File string | Dir

type_synonym filesystem = "(pure_path \<times> node) list"

definition path_exists :: "filesystem \<Rightarrow> pure_path \<Rightarrow> bool" where
  "path_exists fs p = (\<not> has_nul p \<and> map_of fs p \<noteq> None)"

definition is_file :: "filesystem \<Rightarrow> pure_path \<Rightarrow> bool" where
  "is_file fs p =
     (\<not> has_nul p \<and> (case map_of fs p of Some (File c) \<Rightarrow> True | _ \<Rightarrow> False))"

definition is_dir :: "filesystem \<Rightarrow> pure_path \<Rightarrow> bool" where
  "is_dir fs p = (\<not> has_nul p \<and> map_of fs p = Some Dir)"

text \<open>
  An \<^verbatim>\<open>OSError\<close> prints its number, its message and the name of the file between single
  quotes (as CPython prints a name that holds no quote and no escape).
\<close>

definition os_error :: "string \<Rightarrow> nat \<Rightarrow> string \<Rightarrow> pure_path \<Rightarrow> fault" where
  "os_error cls errno strerror p =
     Fault cls (''[Errno '' @ str_nat errno @ ''] '' @ strerror @ '': '' @ quoted (as_posix p))"

text \<open>The path itself and the paths above it, topmost first.\<close>

definition lineage :: "pure_path \<Rightarrow> pure_path list" where
  "lineage p = map (\<lambda>k. PurePath (anchor p) (take k (parts p))) [0 ..< Suc (length (parts p))]"

text \<open>
  \<^verbatim>\<open>d.mkdir(parents=True, exist_ok=True)\<close>: every missing directory on the way down to
  \<open>d\<close> is made; a regular file in the way is an error that names \<open>d\<close>.
\<close>

fun make_dirs :: "pure_path \<Rightarrow> pure_path list \<Rightarrow> filesystem \<Rightarrow> fault + filesystem" where
  "make_dirs d [] fs = Inr fs"
| "make_dirs d (q # qs) fs =
     (case map_of fs q of
        Some (File c) \<Rightarrow>
          Inl (if qs = [] then os_error ''FileExistsError'' 17 ''File exists'' d
               else os_error ''NotADirectoryError'' 20 ''Not a directory'' d)
      | Some Dir \<Rightarrow> make_dirs d qs fs
      | None \<Rightarrow> make_dirs d qs (fs @ [(q, Dir)]))"

definition mkdir_parents :: "filesystem \<Rightarrow> pure_path \<Rightarrow> fault + filesystem" where
  "mkdir_parents fs d =
     (if has_nul d then Inl (ValueError ''embedded null byte'')
      else make_dirs d (lineage d) fs)"

text \<open>
  \<^verbatim>\<open>p.write_text(content, encoding="utf-8")\<close>: the type of the data is checked before the
  file is opened; opening for writing creates or truncates a regular file.
\<close>

definition write_text :: "filesystem \<Rightarrow> pure_path \<Rightarrow> pyval \<Rightarrow> fault + filesystem" where
  "write_text fs p content =
     (case content of
        PStr s \<Rightarrow>
          (if has_nul p then Inl (ValueError ''embedded null byte'')
           else (case map_of fs p of
                   Some Dir \<Rightarrow> Inl (os_error ''IsADirectoryError'' 21 ''Is a directory'' p)
                 | Some (File c) \<Rightarrow> Inr (AList.update p (File s) fs)
                 | None \<Rightarrow>
                     (case map_of fs (parent p) of
                        Some Dir \<Rightarrow> Inr (AList.update p (File s) fs)
                      | Some (File c) \<Rightarrow>
                          Inl (os_error ''NotADirectoryError'' 20 ''Not a directory'' p)
                      | None \<Rightarrow>
                          Inl (os_error ''FileNotFoundError'' 2 ''No such file or directory'' p))))
      | _ \<Rightarrow> Inl (TypeError (''data must be str, not '' @ type_name content)))"

text \<open>
  \<^verbatim>\<open>p.read_text(encoding="utf-8")\<close> opens the file in text mode, where a carriage
  return, alone or before a line feed, is read as a line feed.
\<close>

fun universal_newlines :: "string \<Rightarrow> string" where
  "universal_newlines [] = []"
| "universal_newlines [c] = (if c = CHR 0x0D then [CHR 0x0A] else [c])"
| "universal_newlines (c # d # cs) =
     (if c = CHR 0x0D \<and> d = CHR 0x0A then CHR 0x0A # universal_newlines cs
      else if c = CHR 0x0D then CHR 0x0A # universal_newlines (d # cs)
      else c # universal_newlines (d # cs))"

definition read_text :: "filesystem \<Rightarrow> pure_path \<Rightarrow> fault + string" where
  "read_text fs p =
     (case map_of fs p of
        Some (File c) \<Rightarrow> Inr (universal_newlines c)
      | Some Dir \<Rightarrow> Inl (os_error ''IsADirectoryError'' 21 ''Is a directory'' p)
      | None \<Rightarrow> Inl (os_error ''FileNotFoundError'' 2 ''No such file or directory'' p))"

text \<open>\<^verbatim>\<open>r.glob("**/*")\<close>: everything below the directory \<open>r\<close>, at any depth.\<close>

definition glob_all :: "filesystem \<Rightarrow> pure_path \<Rightarrow> pure_path list" where
  "glob_all fs r = (if is_dir fs r then filter (strictly_below r) (map fst fs) else [])"

definition unlink :: "filesystem \<Rightarrow> pure_path \<Rightarrow> filesystem" where
  "unlink fs p = AList.delete p fs"

section \<open>The process and its environment\<close>

text \<open>
  The state the handlers work on: the file system, and the state of the random number
  generators that the numeric helpers and the scripts draw from.
\<close>

record world =
  store :: filesystem
  rng :: nat

text \<open>
  What one \<^verbatim>\<open>exec\<close> of a script did: the text it printed to the two redirected streams,
  the names it bound in the local namespace (bindings made before a fault stay), and
  the fault it ended with, if any.
\<close>

datatype exec_outcome =
  ExecOutcome (printed_out: string) (printed_err: string)
              (bound: "(string \<times> pyval) list") (raised: "fault option")

text \<open>
  The parts of the deployment and of the Python runtime that the source uses and does
  not define: the directory of the script file, \<^verbatim>\<open>json.loads\<close> (\<open>None\<close> for a
  \<^verbatim>\<open>JSONDecodeError\<close>), the interpreter behind \<^verbatim>\<open>exec\<close>, the \<^verbatim>\<open>repr\<close> of containers, the
  stack lines of a traceback, and the numeric, plotting and GPU helpers that the
  specification leaves to external collaborators. A script may run forever, and there is
  no timeout: the interpreter and the collaborators give \<open>None\<close> when they never return.
\<close>

record runtime =
  script_dir :: pure_path
  json_loads :: "string \<Rightarrow> pyval option"
  interpreter :: "string \<Rightarrow> world \<Rightarrow> (exec_outcome \<times> world) option"
  container_repr :: "pyval \<Rightarrow> string"
  tb_frames :: "fault \<Rightarrow> string"
  collaborator :: "string \<Rightarrow> pyval \<Rightarrow> world \<Rightarrow> ((fault + pyval) \<times> world) option"

definition SANDBOX_ROOT :: "runtime \<Rightarrow> pure_path" where
  "SANDBOX_ROOT rt = joinpath (script_dir rt) ''sandbox''"

text \<open>The module's start: \<^verbatim>\<open>SANDBOX_ROOT.mkdir(parents=True, exist_ok=True)\<close>.\<close>

definition startup :: "runtime \<Rightarrow> world \<Rightarrow> fault + world" where
  "startup rt w =
     (case mkdir_parents (store w) (SANDBOX_ROOT rt) of
        Inl e \<Rightarrow> Inl e
      | Inr fs' \<Rightarrow> Inr (w\<lparr>store := fs'\<rparr>))"

text \<open>
  \<^verbatim>\<open>traceback.format_exc()\<close>: the header line, the stack lines, and the line of the
  exception.
\<close>

definition format_exc :: "runtime \<Rightarrow> fault \<Rightarrow> string" where
  "format_exc rt e =
     ''Traceback (most recent call last):'' @ [CHR 0x0A] @ tb_frames rt e
       @ exc_class e @ (if exc_str e = [] then [] else '': '' @ exc_str e) @ [CHR 0x0A]"

section \<open>Message channel\<close>

text \<open>
  Standard input is the list of lines still to be read; \<^verbatim>\<open>readline\<close> returns the empty
  string at the end of the stream. Standard output is the list of messages written.
\<close>

definition readline :: "string list \<Rightarrow> string \<times> string list" where
  "readline stdin = (case stdin of [] \<Rightarrow> ([], []) | l # ls \<Rightarrow> (l, ls))"

definition read_message :: "runtime \<Rightarrow> string list \<Rightarrow> pyval option \<times> string list" where
  "read_message rt stdin =
     (let (line, rest) = readline stdin
      in if line = [] then (None, rest)
         else (let line' = py_strip line
               in if line' = [] then (None, rest)
                  else (case json_loads rt line' of
                          None \<Rightarrow> (None, rest)
                        | Some PNone \<Rightarrow> (None, rest)
                        | Some msg \<Rightarrow> (Some msg, rest))))"

definition send_message :: "pyval \<Rightarrow> pyval list \<Rightarrow> fault + pyval list" where
  "send_message msg out =
     (if serializable msg then Inr (out @ [msg])
      else Inl (TypeError (''Object of type '' @ concat (take 1 (object_classes msg))
                  @ '' is not JSON serializable'')))"

section \<open>Sandbox utilities\<close>

definition sandbox_path :: "runtime \<Rightarrow> string \<Rightarrow> pure_path" where
  "sandbox_path rt rel = joinpath (SANDBOX_ROOT rt) (py_replace ''..'' [] rel)"

definition reset_sandbox_dir :: "runtime \<Rightarrow> filesystem \<Rightarrow> filesystem" where
  "reset_sandbox_dir rt fs =
     (if path_exists fs (SANDBOX_ROOT rt)
      then fold (\<lambda>p fs'. if is_file fs' p then unlink fs' p else fs')
             (glob_all fs (SANDBOX_ROOT rt)) fs
      else fs)"

section \<open>Sandboxed Python execution\<close>

text \<open>
  \<^verbatim>\<open>exec(code, env_globals, env_locals)\<close>: the empty program prints nothing, binds nothing
  and raises nothing; what any other program does is the interpreter's.
\<close>

definition py_exec :: "runtime \<Rightarrow> string \<Rightarrow> world \<Rightarrow> (exec_outcome \<times> world) option" where
  "py_exec rt code w =
     (if code = [] then Some (ExecOutcome [] [] [] None, w) else interpreter rt code w)"

definition run_sandboxed_python ::
  "runtime \<Rightarrow> string \<Rightarrow> world \<Rightarrow> (pyval \<times> world) option" where
  "run_sandboxed_python rt code w =
     (case py_exec rt code w of
        None \<Rightarrow> None
      | Some (oc, w') \<Rightarrow>
          (let stdout_buf = printed_out oc;
               stderr_buf = printed_err oc
                 @ (case raised oc of None \<Rightarrow> [] | Some e \<Rightarrow> format_exc rt e);
               result = (case map_of (bound oc) ''result'' of Some v \<Rightarrow> v | None \<Rightarrow> PNone)
           in Some (PDict [(''stdout'', PStr stdout_buf), (''stderr'', PStr stderr_buf),
                           (''result'', result)], w')))"

section \<open>Tools\<close>

text \<open>
  A handler takes the arguments of the call and returns a result or raises a fault; the
  state it leaves behind is kept in both cases. A handler that runs a script or a
  collaborator may also never return (\<open>None\<close>); the handlers of the file store always
  return, and \<open>returns\<close> enters them in the registry.
\<close>

type_synonym call_result = "(fault + pyval) \<times> world"

type_synonym file_handler = "runtime \<Rightarrow> pyval \<Rightarrow> world \<Rightarrow> call_result"

type_synonym handler = "runtime \<Rightarrow> pyval \<Rightarrow> world \<Rightarrow> call_result option"

definition returns :: "file_handler \<Rightarrow> handler" where
  "returns h rt params w = Some (h rt params w)"

definition tool_write_file :: file_handler where
  "tool_write_file rt params w =
     (case dict_get params ''path'' PNone of
        Inl e \<Rightarrow> (Inl e, w)
      | Inr rel_path \<Rightarrow>
     (case dict_get params ''content'' (PStr []) of
        Inl e \<Rightarrow> (Inl e, w)
      | Inr content \<Rightarrow>
     (case rel_path of
        PStr rel \<Rightarrow>
          (let p = sandbox_path rt rel
           in case mkdir_parents (store w) (parent p) of
                Inl e \<Rightarrow> (Inl e, w)
              | Inr fs1 \<Rightarrow>
                  (case write_text fs1 p content of
                     Inl e \<Rightarrow> (Inl e, w\<lparr>store := fs1\<rparr>)
                   | Inr fs2 \<Rightarrow> (Inr (PDict [(''ok'', PBool True)]), w\<lparr>store := fs2\<rparr>)))
      | _ \<Rightarrow> (Inl (ValueError ''path must be a string''), w))))"

definition tool_read_file :: file_handler where
  "tool_read_file rt params w =
     (case dict_get params ''path'' PNone of
        Inl e \<Rightarrow> (Inl e, w)
      | Inr rel_path \<Rightarrow>
     (case rel_path of
        PStr rel \<Rightarrow>
          (let p = sandbox_path rt rel
           in if \<not> path_exists (store w) p \<or> \<not> is_file (store w) p
              then (Inl (FileNotFoundError (''File not found: '' @ rel)), w)
              else (case read_text (store w) p of
                      Inl e \<Rightarrow> (Inl e, w)
                    | Inr content \<Rightarrow> (Inr (PDict [(''content'', PStr content)]), w)))
      | _ \<Rightarrow> (Inl (ValueError ''path must be a string''), w)))"

definition list_files :: "runtime \<Rightarrow> filesystem \<Rightarrow> string list" where
  "list_files rt fs =
     map (\<lambda>p. as_posix (relative_to p (SANDBOX_ROOT rt)))
       (filter (is_file fs) (glob_all fs (SANDBOX_ROOT rt)))"

definition tool_list_files :: file_handler where
  "tool_list_files rt params w =
     (Inr (PDict [(''files'', PList (map PStr (list_files rt (store w))))]), w)"

definition tool_reset_sandbox :: file_handler where
  "tool_reset_sandbox rt params w =
     (Inr (PDict [(''ok'', PBool True)]), w\<lparr>store := reset_sandbox_dir rt (store w)\<rparr>)"

definition tool_run_python :: handler where
  "tool_run_python rt params w =
     (case dict_get params ''code'' PNone of
        Inl e \<Rightarrow> Some (Inl e, w)
      | Inr c1 \<Rightarrow>
     (case dict_get params ''python'' PNone of
        Inl e \<Rightarrow> Some (Inl e, w)
      | Inr c2 \<Rightarrow>
     (case py_or (py_or c1 c2) (PStr []) of
        PStr code \<Rightarrow>
          (case run_sandboxed_python rt code w of
             None \<Rightarrow> None
           | Some (r, w') \<Rightarrow> Some (Inr r, w'))
      | _ \<Rightarrow> Some (Inl (ValueError ''code must be a string''), w))))"

text \<open>
  The numeric, plotting and GPU handlers pass their arguments to the external
  collaborators; \<^verbatim>\<open>plot_data\<close> checks the shape of its arguments first.
\<close>

definition tool_simulate_kerr :: handler where
  "tool_simulate_kerr rt params w = collaborator rt ''simulate_kerr'' params w"

definition tool_generate_noise :: handler where
  "tool_generate_noise rt params w = collaborator rt ''generate_noise'' params w"

definition tool_plot_data :: handler where
  "tool_plot_data rt params w =
     (case dict_get params ''x'' (PList []) of
        Inl e \<Rightarrow> Some (Inl e, w)
      | Inr x \<Rightarrow>
     (case dict_get params ''y'' (PList []) of
        Inl e \<Rightarrow> Some (Inl e, w)
      | Inr y \<Rightarrow>
     (case (x, y) of
        (PList xs, PList ys) \<Rightarrow>
          (if length xs \<noteq> length ys
           then Some (Inl (ValueError ''x and y must have the same length''), w)
           else collaborator rt ''plot_data'' params w)
      | _ \<Rightarrow> Some (Inl (ValueError ''x and y must be lists of numbers''), w))))"

definition tool_chaos_parameters :: handler where
  "tool_chaos_parameters rt params w = collaborator rt ''chaos_parameters'' params w"

definition tool_gpu_info :: handler where
  "tool_gpu_info rt params w = collaborator rt ''gpu_info'' params w"

definition TOOLS :: "(string \<times> handler) list" where
  "TOOLS =
     [(''run_python'', tool_run_python),
      (''simulate_kerr'', tool_simulate_kerr),
      (''generate_noise'', tool_generate_noise),
      (''plot_data'', tool_plot_data),
      (''chaos_parameters'', tool_chaos_parameters),
      (''write_file'', returns tool_write_file),
      (''read_file'', returns tool_read_file),
      (''list_files'', returns tool_list_files),
      (''reset_sandbox'', returns tool_reset_sandbox),
      (''gpu_info'', tool_gpu_info)]"

definition tool_names :: "string list" where
  "tool_names = map fst TOOLS"

section \<open>The protocol\<close>

text \<open>
  A handler of the protocol either returns, with the state and the output it leaves, or
  lets a fault escape, which ends the process. Where it waits for a tool that never
  returns, it has no outcome (\<open>None\<close>).
\<close>

datatype outcome =
    Returned world "pyval list"
  | Uncaught fault world "pyval list"

definition result_response :: "pyval \<Rightarrow> pyval \<Rightarrow> pyval" where
  "result_response request_id result =
     PDict [(''jsonrpc'', PStr ''2.0''), (''id'', request_id), (''result'', result)]"

definition error_response :: "pyval \<Rightarrow> int \<Rightarrow> string \<Rightarrow> string option \<Rightarrow> pyval" where
  "error_response request_id code message data =
     PDict [(''jsonrpc'', PStr ''2.0''), (''id'', request_id),
            (''error'', PDict ([(''code'', PInt code), (''message'', PStr message)]
               @ (case data of None \<Rightarrow> [] | Some d \<Rightarrow> [(''data'', PStr d)])))]"

definition reply :: "pyval \<Rightarrow> world \<Rightarrow> pyval list \<Rightarrow> outcome" where
  "reply msg w out =
     (case send_message msg out of Inl e \<Rightarrow> Uncaught e w out | Inr out' \<Rightarrow> Returned w out')"

text \<open>\<^verbatim>\<open>name not in TOOLS\<close> hashes the name: a list or a dictionary cannot be hashed.\<close>

fun in_TOOLS :: "pyval \<Rightarrow> fault + bool" where
  "in_TOOLS (PStr s) = Inr (s \<in> set tool_names)"
| "in_TOOLS (PList xs) = Inl (TypeError (''unhashable type: '' @ quoted ''list''))"
| "in_TOOLS (PDict kvs) = Inl (TypeError (''unhashable type: '' @ quoted ''dict''))"
| "in_TOOLS v = Inr False"


fun TOOLS_getitem :: "pyval \<Rightarrow> fault + handler" where
  "TOOLS_getitem (PStr s) =
     (case map_of TOOLS s of Some h \<Rightarrow> Inr h | None \<Rightarrow> Inl (Fault ''KeyError'' (quoted s)))"
| "TOOLS_getitem v = Inl (Fault ''KeyError'' [])"

definition tool_description :: "string \<Rightarrow> pyval" where
  "tool_description name =
     PDict [(''name'', PStr name), (''description'', PStr (''Tool: '' @ name)),
            (''inputSchema'', PDict [(''type'', PStr ''object''), (''properties'', PDict []),
                                     (''additionalProperties'', PBool True)])]"

definition handle_list_tools :: "pyval \<Rightarrow> world \<Rightarrow> pyval list \<Rightarrow> outcome" where
  "handle_list_tools request_id w out =
     reply (result_response request_id
              (PDict [(''tools'', PList (map tool_description tool_names))])) w out"

text \<open>
  The lookup of the name is outside the \<^verbatim>\<open>try\<close>; the call of the handler and the sending
  of its result are inside, so a result that cannot be encoded is answered as a fault of
  the handler is.
\<close>

definition tool_fault :: "runtime \<Rightarrow> pyval \<Rightarrow> fault \<Rightarrow> world \<Rightarrow> pyval list \<Rightarrow> outcome" where
  "tool_fault rt request_id e w out =
     reply (error_response request_id (- 32000) (''Tool error: '' @ exc_str e)
              (Some (format_exc rt e))) w out"

definition handle_call_tool ::
  "runtime \<Rightarrow> pyval \<Rightarrow> pyval \<Rightarrow> world \<Rightarrow> pyval list \<Rightarrow> outcome option" where
  "handle_call_tool rt request_id params w out =
     (case dict_get params ''name'' PNone of
        Inl e \<Rightarrow> Some (Uncaught e w out)
      | Inr name \<Rightarrow>
     (case dict_get params ''arguments'' (PDict []) of
        Inl e \<Rightarrow> Some (Uncaught e w out)
      | Inr arguments \<Rightarrow>
     (case in_TOOLS name of
        Inl e \<Rightarrow> Some (Uncaught e w out)
      | Inr False \<Rightarrow>
          Some (reply (error_response request_id (- 32601)
                         (''Unknown tool: '' @ py_str (container_repr rt) name) None) w out)
      | Inr True \<Rightarrow>
          (case TOOLS_getitem name of
             Inl e \<Rightarrow> Some (tool_fault rt request_id e w out)
           | Inr h \<Rightarrow>
               (case h rt arguments w of
                  None \<Rightarrow> None
                | Some (Inl e, w') \<Rightarrow> Some (tool_fault rt request_id e w' out)
                | Some (Inr result, w') \<Rightarrow>
                    (case send_message (result_response request_id result) out of
                       Inl e \<Rightarrow> Some (tool_fault rt request_id e w' out)
                     | Inr out' \<Rightarrow> Some (Returned w' out')))))))"

definition handle_initialize :: "pyval \<Rightarrow> pyval \<Rightarrow> world \<Rightarrow> pyval list \<Rightarrow> outcome" where
  "handle_initialize request_id params w out =
     reply (result_response request_id
              (PDict [(''protocolVersion'', PStr ''2024-11-05''),
                      (''serverInfo'', PDict [(''name'', PStr ''python-lab''),
                                              (''version'', PStr ''1.0.0'')]),
                      (''capabilities'', PDict [(''tools'', PDict [])])])) w out"

text \<open>The body of the loop, for one decoded message.\<close>

definition dispatch ::
  "runtime \<Rightarrow> pyval \<Rightarrow> world \<Rightarrow> pyval list \<Rightarrow> outcome option" where
  "dispatch rt msg w out =
     (case dict_get msg ''id'' PNone of
        Inl e \<Rightarrow> Some (Uncaught e w out)
      | Inr msg_id \<Rightarrow>
     (case dict_get msg ''method'' PNone of
        Inl e \<Rightarrow> Some (Uncaught e w out)
      | Inr method \<Rightarrow>
     (case dict_get msg ''params'' (PDict []) of
        Inl e \<Rightarrow> Some (Uncaught e w out)
      | Inr params0 \<Rightarrow>
          (let params = py_or params0 (PDict [])
           in if method = PStr ''initialize''
                then Some (handle_initialize msg_id params w out)
              else if method \<in> set [PStr ''list_tools'', PStr ''tools/list'']
                then Some (handle_list_tools msg_id w out)
              else if method \<in> set [PStr ''call_tool'', PStr ''tools/call'']
                then handle_call_tool rt msg_id params w out
              else Some (reply (error_response msg_id (- 32601)
                            (''Unknown method: '' @ py_str (container_repr rt) method) None)
                     w out)))))"

text \<open>
  How the process ends: the fault that ended it (none when the loop was left by
  \<^verbatim>\<open>break\<close>), the state, the messages written, and the lines never read. The loop never
  ends (\<open>None\<close>) when a tool never returns.
\<close>

datatype exit = Exit (crash: "fault option") (final: world) (written: "pyval list")
                     (unread: "string list")

function main_loop ::
  "runtime \<Rightarrow> string list \<Rightarrow> world \<Rightarrow> pyval list \<Rightarrow> exit option" where
  "main_loop rt stdin w out =
     (case read_message rt stdin of
        (None, rest) \<Rightarrow> Some (Exit None w out rest)
      | (Some msg, rest) \<Rightarrow>
          (case dispatch rt msg w out of
             None \<Rightarrow> None
           | Some (Uncaught e w' out') \<Rightarrow> Some (Exit (Some e) w' out' rest)
           | Some (Returned w' out') \<Rightarrow> main_loop rt rest w' out'))"
  by pat_completeness auto
termination
  by (relation "measure (\<lambda>(rt, stdin, w, out). length stdin)")
     (auto simp: read_message_def readline_def Let_def
        split: list.splits if_splits option.splits pyval.splits)

declare main_loop.simps [simp del]

section \<open>Call sequences and a sample deployment\<close>

text \<open>A sequence of \<^verbatim>\<open>write_file\<close> calls, each acknowledged; \<open>None\<close> when one of them faults.\<close>

fun write_files :: "runtime \<Rightarrow> (string \<times> string) list \<Rightarrow> world \<Rightarrow> world option" where
  "write_files rt [] w = Some w"
| "write_files rt ((p, c) # rest) w =
     (case tool_write_file rt (PDict [(''path'', PStr p), (''content'', PStr c)]) w of
        (Inr r, w') \<Rightarrow> write_files rt rest w'
      | (Inl e, w') \<Rightarrow> None)"


text \<open>
  A deployment to evaluate the definitions on: the script lives in \<^verbatim>\<open>/srv/lab\<close>; the
  decoder knows two requests and rejects every other line; the interpreter knows four
  scripts (\<^verbatim>\<open>1/0\<close> raises \<^verbatim>\<open>ZeroDivisionError\<close>, after the binding of \<^verbatim>\<open>result\<close> in the
  second one; the last one never returns); the collaborators are not installed.
\<close>

definition sample_loads :: "string \<Rightarrow> pyval option" where
  \<open>sample_loads s =
     (if s = ''{"jsonrpc": "2.0", "id": null, "method": "initialize"}''
      then Some (PDict [(''jsonrpc'', PStr ''2.0''), (''id'', PNone),
                        (''method'', PStr ''initialize'')])
      else if s = ''{"jsonrpc": "2.0", "id": 7, "method": "tools/list"}''
      then Some (PDict [(''jsonrpc'', PStr ''2.0''), (''id'', PInt 7),
                        (''method'', PStr ''tools/list'')])
      else None)\<close>

definition sample_interpreter :: "string \<Rightarrow> world \<Rightarrow> (exec_outcome \<times> world) option" where
  "sample_interpreter code w =
     (if code = ''result = 42'' then Some (ExecOutcome [] [] [(''result'', PInt 42)] None, w)
      else if code = ''result = 42; 1/0''
      then Some (ExecOutcome [] [] [(''result'', PInt 42)]
                   (Some (Fault ''ZeroDivisionError'' ''division by zero'')), w)
      else if code = ''1/0''
      then Some (ExecOutcome [] [] []
                   (Some (Fault ''ZeroDivisionError'' ''division by zero'')), w)
      else if code = ''while True: pass'' then None
      else Some (ExecOutcome [] [] [] (Some (Fault ''SyntaxError'' ''invalid syntax'')), w))"

definition sample_runtime :: runtime where
  "sample_runtime =
     \<lparr> script_dir = PurePath ''/'' [''srv'', ''lab''],
       json_loads = sample_loads,
       interpreter = sample_interpreter,
       container_repr = (\<lambda>v. ''[]''),
       tb_frames = (\<lambda>e. []),
       collaborator = (\<lambda>name params w.
         Some (Inl (Fault ''RuntimeError'' ''NumPy is required for noise generation.''), w)) \<rparr>"

definition sample_world :: world where
  "sample_world =
     \<lparr> store = [(PurePath ''/'' [], Dir), (PurePath ''/'' [''srv''], Dir),
                 (PurePath ''/'' [''srv'', ''lab''], Dir),
                 (PurePath ''/'' [''srv'', ''lab'', ''sandbox''], Dir)],
       rng = 0 \<rparr>"

section \<open>Path resolution\<close>

lemma replace_etc_passwd:
  "py_replace ''..'' [] ''../../etc/passwd'' = ''//etc/passwd''"
  by code_simp

lemma parse_etc_passwd:
  "parse_path ''//etc/passwd'' = PurePath ''//'' [''etc'', ''passwd'']"
  by (simp add: parse_path_def posix_root_def parse_parts_def)

lemma SANDBOX_ROOT_parts:
  "SANDBOX_ROOT rt = PurePath (anchor (script_dir rt)) (parts (script_dir rt) @ [''sandbox''])"
  by (simp add: SANDBOX_ROOT_def joinpath_def parse_path_def posix_root_def parse_parts_def
      Let_def)

lemma not_prefix_sandbox: "\<not> prefix (xs @ [''sandbox'']) [''etc'', ''passwd'']"
proof
  assume "prefix (xs @ [''sandbox'']) [''etc'', ''passwd'']"
  then obtain zs where "[''etc'', ''passwd''] = (xs @ [''sandbox'']) @ zs"
    by (auto simp: prefix_def)
  then have "''sandbox'' \<in> set [''etc'', ''passwd'']"
    by (metis append_assoc in_set_conv_decomp append_Cons append_Nil)
  then show False by simp
qed

text \<open>
  Claim C1. The claim asks that a relative path with parent-directory markers resolves
  below the sandbox root, and names \<^verbatim>\<open>../../etc/passwd\<close>. The code does not do that at
  this very input: deleting the two markers leaves \<^verbatim>\<open>//etc/passwd\<close>, which is an absolute
  path, and joining an absolute path to the root yields the absolute path. Whatever the
  directory of the script, the resolved path is \<^verbatim>\<open>//etc/passwd\<close> and it is not below the
  sandbox root.
\<close>

theorem sandbox_path_escapes_root:
  "sandbox_path rt ''../../etc/passwd'' = PurePath ''//'' [''etc'', ''passwd'']
   \<and> \<not> is_relative_to (sandbox_path rt ''../../etc/passwd'') (SANDBOX_ROOT rt)"
proof -
  have 1: "sandbox_path rt ''../../etc/passwd'' = PurePath ''//'' [''etc'', ''passwd'']"
    by (simp add: sandbox_path_def replace_etc_passwd joinpath_def parse_etc_passwd Let_def)
  have 2: "\<not> is_relative_to (PurePath ''//'' [''etc'', ''passwd'']) (SANDBOX_ROOT rt)"
    by (simp add: is_relative_to_def SANDBOX_ROOT_parts not_prefix_sandbox)
  from 1 2 show ?thesis by simp
qed

theorem sandbox_path_escapes_root_witness:
  "sandbox_path sample_runtime ''../../etc/passwd'' = PurePath ''//'' [''etc'', ''passwd'']
   \<and> SANDBOX_ROOT sample_runtime = PurePath ''/'' [''srv'', ''lab'', ''sandbox'']"
  using sandbox_path_escapes_root [of sample_runtime]
  by (simp add: SANDBOX_ROOT_parts sample_runtime_def)

section \<open>Writing and reading back\<close>

lemma write_file_success:
  assumes "tool_write_file rt (PDict [(''path'', PStr rel), (''content'', PStr c)]) w = (Inr ack, w')"
  shows "\<exists>fs1. mkdir_parents (store w) (parent (sandbox_path rt rel)) = Inr fs1
           \<and> \<not> has_nul (sandbox_path rt rel)
           \<and> map_of fs1 (sandbox_path rt rel) \<noteq> Some Dir
           \<and> w' = w\<lparr>store := AList.update (sandbox_path rt rel) (File c) fs1\<rparr>
           \<and> ack = PDict [(''ok'', PBool True)]"
  using assms
  by (auto simp: tool_write_file_def write_text_def Let_def
      split: sum.splits option.splits node.splits if_splits)


lemma write_then_read_via:
  assumes "tool_write_file rt (PDict [(''path'', PStr p), (''content'', PStr c)]) w = (Inr ack, w')"
    and "sandbox_path rt q = sandbox_path rt p"
  shows "tool_read_file rt (PDict [(''path'', PStr q)]) w'
         = (Inr (PDict [(''content'', PStr (universal_newlines c))]), w')"
proof -
  from write_file_success [OF assms(1)] obtain fs1 where
    nn: "\<not> has_nul (sandbox_path rt p)" and
    w': "w' = w\<lparr>store := AList.update (sandbox_path rt p) (File c) fs1\<rparr>"
    by blast
  have "map_of (store w') (sandbox_path rt p) = Some (File c)"
    by (simp add: w' update_conv')
  then show ?thesis
    using nn assms(2)
    by (simp add: tool_read_file_def Let_def path_exists_def is_file_def read_text_def)
qed

lemma make_dirs_map_of:
  "make_dirs d qs fs = Inr fs' \<Longrightarrow>
   map_of fs' x = (if x \<in> set qs \<and> map_of fs x = None then Some Dir else map_of fs x)"
proof (induction qs arbitrary: fs)
  case Nil
  then show ?case by simp
next
  case (Cons q qs)
  show ?case
  proof (cases "map_of fs q")
    case None
    with Cons.prems have "make_dirs d qs (fs @ [(q, Dir)]) = Inr fs'" by simp
    from Cons.IH [OF this] show ?thesis
      using None by (auto simp: map_add_def split: option.splits)
  next
    case (Some n)
    with Cons.prems obtain "n = Dir" and "make_dirs d qs fs = Inr fs'"
      by (cases n) auto
    with Cons.IH [of fs] Some show ?thesis by auto
  qed
qed



lemma make_dirs_distinct:
  "make_dirs d qs fs = Inr fs' \<Longrightarrow> distinct (map fst fs) \<Longrightarrow> distinct (map fst fs')"
proof (induction qs arbitrary: fs)
  case Nil
  then show ?case by simp
next
  case (Cons q qs)
  show ?case
  proof (cases "map_of fs q")
    case None
    with Cons.prems have m: "make_dirs d qs (fs @ [(q, Dir)]) = Inr fs'" by simp
    from None have "q \<notin> fst ` set fs" by (simp add: map_of_eq_None_iff)
    with Cons.prems have "distinct (map fst (fs @ [(q, Dir)]))" by simp
    from Cons.IH [OF m this] show ?thesis .
  next
    case (Some n)
    with Cons.prems obtain "n = Dir" and "make_dirs d qs fs = Inr fs'"
      by (cases n) auto
    with Cons.IH [of fs] Cons.prems show ?thesis by simp
  qed
qed











section \<open>Path aliasing\<close>

text \<open>
  Claim C9. Two caller paths that are equal once every occurrence of \<^verbatim>\<open>..\<close> is deleted
  (as \<^verbatim>\<open>a..b\<close> and \<^verbatim>\<open>ab\<close> are) resolve to the same path; a write through one has the
  effect and the result of the same write through the other; and what was written
  through one is read through the other.
\<close>

theorem stripped_equal_paths_alias:
  assumes "py_replace ''..'' [] p = py_replace ''..'' [] q"
  shows "sandbox_path rt p = sandbox_path rt q
     \<and> tool_write_file rt (PDict [(''path'', PStr p), (''content'', c)]) w
         = tool_write_file rt (PDict [(''path'', PStr q), (''content'', c)]) w
     \<and> (\<forall>s ack w'.
          tool_write_file rt (PDict [(''path'', PStr p), (''content'', PStr s)]) w = (Inr ack, w')
          \<longrightarrow> tool_read_file rt (PDict [(''path'', PStr q)]) w'
               = (Inr (PDict [(''content'', PStr (universal_newlines s))]), w'))"
proof -
  have same: "sandbox_path rt p = sandbox_path rt q"
    using assms by (simp add: sandbox_path_def)
  then have "tool_write_file rt (PDict [(''path'', PStr p), (''content'', c)]) w
         = tool_write_file rt (PDict [(''path'', PStr q), (''content'', c)]) w"
    by (simp add: tool_write_file_def)
  moreover have "tool_read_file rt (PDict [(''path'', PStr q)]) w'
               = (Inr (PDict [(''content'', PStr (universal_newlines s))]), w')"
    if "tool_write_file rt (PDict [(''path'', PStr p), (''content'', PStr s)]) w = (Inr ack, w')"
    for s ack w'
    using write_then_read_via [OF that, of q] same by simp
  ultimately show ?thesis
    using same by blast
qed

theorem stripped_equal_paths_alias_witness:
  "py_replace ''..'' [] ''a..b'' = py_replace ''..'' [] ''ab''
   \<and> ''a..b'' \<noteq> ''ab''
   \<and> sandbox_path sample_runtime ''a..b'' = sandbox_path sample_runtime ''ab''
   \<and> tool_read_file sample_runtime (PDict [(''path'', PStr ''ab'')])
        (snd (tool_write_file sample_runtime
           (PDict [(''path'', PStr ''a..b''), (''content'', PStr ''hello'')]) sample_world))
      = (Inr (PDict [(''content'', PStr ''hello'')]),
         snd (tool_write_file sample_runtime
           (PDict [(''path'', PStr ''a..b''), (''content'', PStr ''hello'')]) sample_world))"
proof -
  have h: "py_replace ''..'' [] ''a..b'' = py_replace ''..'' [] ''ab''"
    by code_simp
  have ok: "fst (tool_write_file sample_runtime
           (PDict [(''path'', PStr ''a..b''), (''content'', PStr ''hello'')]) sample_world)
          = Inr (PDict [(''ok'', PBool True)])"
    by code_simp
  have u: "universal_newlines ''hello'' = ''hello''"
    by simp
  let ?wr = "tool_write_file sample_runtime
           (PDict [(''path'', PStr ''a..b''), (''content'', PStr ''hello'')]) sample_world"
  have wr: "?wr = (Inr (PDict [(''ok'', PBool True)]), snd ?wr)"
    using ok by (metis prod.collapse)
  from stripped_equal_paths_alias [OF h, of sample_runtime "PStr ''hello''" sample_world]
  have "sandbox_path sample_runtime ''a..b'' = sandbox_path sample_runtime ''ab''"
    and rd: "\<And>s ack w'. tool_write_file sample_runtime
           (PDict [(''path'', PStr ''a..b''), (''content'', PStr s)]) sample_world = (Inr ack, w')
        \<Longrightarrow> tool_read_file sample_runtime (PDict [(''path'', PStr ''ab'')]) w'
               = (Inr (PDict [(''content'', PStr (universal_newlines s))]), w')"
    by blast+
  moreover note rd [OF wr]
  ultimately show ?thesis
    using h u by simp
qed

section \<open>The dispatcher\<close>

















lemma call_tool_blocks_only_in_tool:
  assumes "handle_call_tool rt request_id (PDict kvs) w out = None"
  shows "\<exists>s h. map_of kvs ''name'' = Some (PStr s) \<and> map_of TOOLS s = Some h
           \<and> h rt (case map_of kvs ''arguments'' of Some v \<Rightarrow> v | None \<Rightarrow> PDict []) w = None"
  using assms
  by (auto simp: handle_call_tool_def reply_def tool_fault_def
      split: sum.splits bool.splits option.splits prod.splits pyval.splits
      elim!: TOOLS_getitem.elims)



section \<open>The service loop\<close>

lemma undecodable_line_breaks:
  assumes "line \<noteq> []" and "json_loads rt (py_strip line) = None"
  shows "main_loop rt (line # rest) w out = Some (Exit None w out rest)"
  using assms
  by (subst main_loop.simps) (simp add: read_message_def readline_def Let_def)

lemma blank_line_breaks:
  assumes "py_strip line = []"
  shows "main_loop rt (line # rest) w out = Some (Exit None w out rest)"
  using assms
  by (subst main_loop.simps) (simp add: read_message_def readline_def Let_def)

text \<open>
  Claim C3. The claim asks that a line that does not parse is skipped and that only the
  end of the stream ends the loop. The code does not do that: \<open>read_message\<close> returns
  \<^verbatim>\<open>None\<close> for such a line as it does at the end of the stream, and the loop breaks on
  \<^verbatim>\<open>None\<close>. Here an \<^verbatim>\<open>initialize\<close> request that follows a line of garbage is never read and
  never answered, and the same request on its own is answered.
\<close>

theorem undecodable_line_ends_loop:
  \<open>main_loop sample_runtime
     [''garbage'' @ [CHR 0x0A], ''{"jsonrpc": "2.0", "id": null, "method": "initialize"}'' @ [CHR 0x0A]]
     sample_world []
   = Some (Exit None sample_world []
             [''{"jsonrpc": "2.0", "id": null, "method": "initialize"}'' @ [CHR 0x0A]])
   \<and> map_option written (main_loop sample_runtime
        [''{"jsonrpc": "2.0", "id": null, "method": "initialize"}'' @ [CHR 0x0A]] sample_world [])
     = Some [result_response PNone
          (PDict [(''protocolVersion'', PStr ''2024-11-05''),
                  (''serverInfo'', PDict [(''name'', PStr ''python-lab''),
                                          (''version'', PStr ''1.0.0'')]),
                  (''capabilities'', PDict [(''tools'', PDict [])])])]\<close>
  by code_simp

section \<open>The execution engine\<close>






text \<open>
  Claim C10, as amended. The code taken is the first truthy value among the arguments
  \<^verbatim>\<open>code\<close> and \<^verbatim>\<open>python\<close>, and the empty script when both are falsy or absent. So a falsy
  \<^verbatim>\<open>code\<close> of any type, next to a \<^verbatim>\<open>python\<close> that is falsy or absent too, raises nothing:
  the call returns empty \<^verbatim>\<open>stdout\<close>, empty \<^verbatim>\<open>stderr\<close> and a null \<^verbatim>\<open>result\<close>, and leaves the
  state as it was. The fault \<^verbatim>\<open>code must be a string\<close> is raised exactly when the first
  truthy value among the two is not a string.
\<close>

theorem falsy_code_runs_empty_script:
  assumes "dict_get (PDict kvs) ''code'' PNone = Inr c1"
    and "dict_get (PDict kvs) ''python'' PNone = Inr c2"
  shows "(\<not> truthy c1 \<and> \<not> truthy c2
          \<longrightarrow> tool_run_python rt (PDict kvs) w
               = Some (Inr (PDict [(''stdout'', PStr []), (''stderr'', PStr []),
                                   (''result'', PNone)]), w))
     \<and> (tool_run_python rt (PDict kvs) w = Some (Inl (ValueError ''code must be a string''), w)
          \<longleftrightarrow> truthy (py_or c1 c2) \<and> \<not> isinstance_str (py_or c1 c2))"
proof -
  have empty: "run_sandboxed_python rt [] w
      = Some (PDict [(''stdout'', PStr []), (''stderr'', PStr []), (''result'', PNone)], w)"
    by (simp add: run_sandboxed_python_def py_exec_def)
  have tool: "tool_run_python rt (PDict kvs) w
      = (case py_or (py_or c1 c2) (PStr []) of
           PStr code \<Rightarrow>
             (case run_sandboxed_python rt code w of
                None \<Rightarrow> None
              | Some (r, w') \<Rightarrow> Some (Inr r, w'))
         | _ \<Rightarrow> Some (Inl (ValueError ''code must be a string''), w))"
    using assms by (simp add: tool_run_python_def)
  have a: "tool_run_python rt (PDict kvs) w
               = Some (Inr (PDict [(''stdout'', PStr []), (''stderr'', PStr []),
                                   (''result'', PNone)]), w)"
    if "\<not> truthy c1" "\<not> truthy c2"
    using that by (simp add: tool py_or_def empty)
  have b: "tool_run_python rt (PDict kvs) w = Some (Inl (ValueError ''code must be a string''), w)
          \<longleftrightarrow> truthy (py_or c1 c2) \<and> \<not> isinstance_str (py_or c1 c2)"
  proof (cases "truthy (py_or c1 c2)")
    case True
    then show ?thesis
      by (cases "py_or c1 c2") (auto simp: tool py_or_def split: option.splits prod.splits)
  next
    case False
    then show ?thesis
      by (simp add: tool py_or_def empty)
  qed
  from a b show ?thesis by blast
qed

theorem falsy_code_runs_empty_script_witness:
  "tool_run_python sample_runtime (PDict [(''code'', PInt 0)]) sample_world
   = Some (Inr (PDict [(''stdout'', PStr []), (''stderr'', PStr []), (''result'', PNone)]),
           sample_world)
   \<and> tool_run_python sample_runtime (PDict [(''code'', PList [])]) sample_world
   = Some (Inr (PDict [(''stdout'', PStr []), (''stderr'', PStr []), (''result'', PNone)]),
           sample_world)"
proof -
  have 1: "dict_get (PDict [(''code'', PInt 0)]) ''code'' PNone = Inr (PInt 0)" by simp
  have 2: "dict_get (PDict [(''code'', PInt 0)]) ''python'' PNone = Inr PNone" by simp
  have 3: "dict_get (PDict [(''code'', PList [])]) ''code'' PNone = Inr (PList [])" by simp
  have 4: "dict_get (PDict [(''code'', PList [])]) ''python'' PNone = Inr PNone" by simp
  from falsy_code_runs_empty_script [OF 1 2, of sample_runtime sample_world]
       falsy_code_runs_empty_script [OF 3 4, of sample_runtime sample_world]
  show ?thesis by simp
qed

text \<open>
  Claim C10 as stated fails when the argument \<^verbatim>\<open>python\<close> is given too: with \<^verbatim>\<open>code\<close> the
  number 0 and \<^verbatim>\<open>python\<close> the number 5, the falsy \<^verbatim>\<open>code\<close> is replaced by 5, not by the
  empty script, and the fault is raised.
\<close>

theorem falsy_code_with_python_argument_faults:
  "tool_run_python sample_runtime (PDict [(''code'', PInt 0), (''python'', PInt 5)]) sample_world
   = Some (Inl (ValueError ''code must be a string''), sample_world)"
  by (simp add: tool_run_python_def py_or_def)

section \<open>Listing the sandbox\<close>

subsection \<open>Relative names are told apart\<close>

lemma split_slash_not_empty: "split_slash s \<noteq> []"
  by (induction s) (auto split: list.splits)

lemma split_slash_no_slash: "x \<in> set (split_slash s) \<Longrightarrow> CHR ''/'' \<notin> set x"
proof (induction s arbitrary: x)
  case Nil
  then show ?case by simp
next
  case (Cons c cs)
  show ?case
  proof (cases "c = CHR ''/''")
    case True
    with Cons show ?thesis by auto
  next
    case False
    obtain w ws where sp: "split_slash cs = w # ws"
      using split_slash_not_empty [of cs] by (cases "split_slash cs") auto
    with Cons.prems False have "x = c # w \<or> x \<in> set ws"
      by simp
    then show ?thesis
    proof
      assume "x = c # w"
      moreover have "CHR ''/'' \<notin> set w"
        using Cons.IH [of w] sp by simp
      ultimately show ?thesis using False by simp
    next
      assume "x \<in> set ws"
      then show ?thesis using Cons.IH [of x] sp by simp
    qed
  qed
qed

lemma parse_parts_clean: "clean (parse_parts s)"
  by (auto simp: clean_def parse_parts_def dest: split_slash_no_slash)

lemma clean_drop: "clean xs \<Longrightarrow> clean (drop n xs)"
  by (auto simp: clean_def dest: in_set_dropD)

lemma join_slash_Cons:
  "join_slash (x # xs) = x @ (if xs = [] then [] else CHR ''/'' # join_slash xs)"
  by (cases xs) auto

lemma until_slash:
  assumes "CHR ''/'' \<notin> set x"
  shows "takeWhile (\<lambda>c. c \<noteq> CHR ''/'') (x @ CHR ''/'' # r) = x"
    and "dropWhile (\<lambda>c. c \<noteq> CHR ''/'') (x @ CHR ''/'' # r) = CHR ''/'' # r"
    and "takeWhile (\<lambda>c. c \<noteq> CHR ''/'') x = x"
    and "dropWhile (\<lambda>c. c \<noteq> CHR ''/'') x = []"
  using assms by (induction x) auto

lemma head_of_join:
  assumes "CHR ''/'' \<notin> set x"
  shows "takeWhile (\<lambda>c. c \<noteq> CHR ''/'') (join_slash (x # xs)) = x"
    and "dropWhile (\<lambda>c. c \<noteq> CHR ''/'') (join_slash (x # xs))
         = (if xs = [] then [] else CHR ''/'' # join_slash xs)"
  using until_slash [OF assms]
  by (auto simp: join_slash_Cons simp del: join_slash.simps)

lemma join_slash_Nil_iff: "clean xs \<Longrightarrow> join_slash xs = [] \<longleftrightarrow> xs = []"
  by (cases xs) (auto simp: join_slash_Cons clean_def simp del: join_slash.simps(2,3))

lemma join_slash_inj:
  "clean xs \<Longrightarrow> clean ys \<Longrightarrow> join_slash xs = join_slash ys \<Longrightarrow> xs = ys"
proof (induction xs arbitrary: ys)
  case Nil
  then show ?case
    using join_slash_Nil_iff [of ys] by simp
next
  case (Cons x xs)
  from Cons.prems obtain y ys' where ys: "ys = y # ys'"
    using join_slash_Nil_iff [of "x # xs"] by (cases ys) auto
  have cx: "CHR ''/'' \<notin> set x" and cy: "CHR ''/'' \<notin> set y"
    using Cons.prems ys by (auto simp: clean_def)
  have cl: "clean xs" "clean ys'"
    using Cons.prems ys by (auto simp: clean_def)
  from Cons.prems(3) ys have eq: "join_slash (x # xs) = join_slash (y # ys')"
    by simp
  have "x = y"
    using head_of_join(1) [OF cx, of xs] head_of_join(1) [OF cy, of ys'] eq by simp
  moreover have "(if xs = [] then [] else CHR ''/'' # join_slash xs)
               = (if ys' = [] then [] else CHR ''/'' # join_slash ys')"
    using head_of_join(2) [OF cx, of xs] head_of_join(2) [OF cy, of ys'] eq by simp
  then have "xs = ys'"
  proof (cases "xs = []")
    case True
    assume "(if xs = [] then [] else CHR ''/'' # join_slash xs)
               = (if ys' = [] then [] else CHR ''/'' # join_slash ys')"
    with True show ?thesis by (cases "ys' = []") auto
  next
    case False
    assume "(if xs = [] then [] else CHR ''/'' # join_slash xs)
               = (if ys' = [] then [] else CHR ''/'' # join_slash ys')"
    with False have "join_slash xs = join_slash ys'"
      by (cases "ys' = []") auto
    with cl show ?thesis by (rule Cons.IH)
  qed
  ultimately show ?case using ys by simp
qed

lemma sandbox_path_parts:
  "parts (sandbox_path rt rel) = parse_parts (py_replace ''..'' [] rel)
   \<or> parts (sandbox_path rt rel)
      = parts (SANDBOX_ROOT rt) @ parse_parts (py_replace ''..'' [] rel)"
  by (simp add: sandbox_path_def joinpath_def parse_path_def Let_def)

lemma below_root_relative_clean:
  assumes "strictly_below (SANDBOX_ROOT rt) (sandbox_path rt rel)"
  shows "clean (parts (relative_to (sandbox_path rt rel) (SANDBOX_ROOT rt)))"
proof -
  let ?n = "length (parts (SANDBOX_ROOT rt))"
  from sandbox_path_parts [of rt rel]
  have "clean (drop ?n (parts (sandbox_path rt rel)))"
  proof
    assume "parts (sandbox_path rt rel) = parse_parts (py_replace ''..'' [] rel)"
    then show ?thesis
      by (simp add: parse_parts_clean clean_drop)
  next
    assume "parts (sandbox_path rt rel)
      = parts (SANDBOX_ROOT rt) @ parse_parts (py_replace ''..'' [] rel)"
    then show ?thesis
      by (simp add: parse_parts_clean)
  qed
  then show ?thesis
    by (simp add: relative_to_def)
qed

lemma relative_name_inj:
  assumes p: "strictly_below r p" and q: "strictly_below r q"
    and cp: "clean (parts (relative_to p r))" and cq: "clean (parts (relative_to q r))"
    and eq: "as_posix (relative_to p r) = as_posix (relative_to q r)"
  shows "p = q"
proof -
  from p obtain xs where xs: "parts p = parts r @ xs" "xs \<noteq> []" and ap: "anchor p = anchor r"
    by (auto simp: strictly_below_def strict_prefix_def prefix_def)
  from q obtain ys where ys: "parts q = parts r @ ys" "ys \<noteq> []" and aq: "anchor q = anchor r"
    by (auto simp: strictly_below_def strict_prefix_def prefix_def)
  from eq xs ys have "join_slash xs = join_slash ys"
    by (simp add: as_posix_def relative_to_def)
  moreover from cp cq xs ys have "clean xs" "clean ys"
    by (simp_all add: relative_to_def)
  ultimately have "xs = ys"
    using join_slash_inj by blast
  with xs ys ap aq show ?thesis
    by (simp add: pure_path.expand)
qed

subsection \<open>What a write changes\<close>

lemma mkdir_parents_map_of:
  assumes "mkdir_parents fs d = Inr fs1"
  shows "map_of fs1 x = (if x \<in> set (lineage d) \<and> map_of fs x = None then Some Dir else map_of fs x)"
  using assms make_dirs_map_of [of d "lineage d" fs fs1 x]
  by (simp add: mkdir_parents_def split: if_splits)

lemma mkdir_parents_distinct:
  assumes "mkdir_parents fs d = Inr fs1" and "distinct (map fst fs)"
  shows "distinct (map fst fs1)"
  using assms make_dirs_distinct [of d "lineage d" fs fs1]
  by (simp add: mkdir_parents_def split: if_splits)

lemma write_keeps_files:
  assumes "tool_write_file rt (PDict [(''path'', PStr rel), (''content'', PStr c)]) w = (Inr ack, w')"
  shows "is_file (store w') x \<longleftrightarrow> x = sandbox_path rt rel \<or> is_file (store w) x"
proof -
  from write_file_success [OF assms] obtain fs1 where
    mk: "mkdir_parents (store w) (parent (sandbox_path rt rel)) = Inr fs1" and
    nn: "\<not> has_nul (sandbox_path rt rel)" and
    w': "w' = w\<lparr>store := AList.update (sandbox_path rt rel) (File c) fs1\<rparr>"
    by blast
  have "is_file fs1 x \<longleftrightarrow> is_file (store w) x"
    by (simp add: is_file_def mkdir_parents_map_of [OF mk])
  then show ?thesis
    using nn by (auto simp: w' is_file_def update_conv')
qed

lemma write_keeps_dirs:
  assumes "tool_write_file rt (PDict [(''path'', PStr rel), (''content'', PStr c)]) w = (Inr ack, w')"
    and "is_dir (store w) d"
  shows "is_dir (store w') d"
proof -
  from write_file_success [OF assms(1)] obtain fs1 where
    mk: "mkdir_parents (store w) (parent (sandbox_path rt rel)) = Inr fs1" and
    nd: "map_of fs1 (sandbox_path rt rel) \<noteq> Some Dir" and
    w': "w' = w\<lparr>store := AList.update (sandbox_path rt rel) (File c) fs1\<rparr>"
    by blast
  from assms(2) have d: "map_of fs1 d = Some Dir" and "\<not> has_nul d"
    by (simp_all add: is_dir_def mkdir_parents_map_of [OF mk])
  moreover from d nd have "d \<noteq> sandbox_path rt rel"
    by auto
  ultimately show ?thesis
    by (simp add: w' is_dir_def update_conv')
qed

lemma write_keeps_distinct:
  assumes "tool_write_file rt (PDict [(''path'', PStr rel), (''content'', PStr c)]) w = (Inr ack, w')"
    and "distinct (map fst (store w))"
  shows "distinct (map fst (store w'))"
proof -
  from write_file_success [OF assms(1)] obtain fs1 where
    mk: "mkdir_parents (store w) (parent (sandbox_path rt rel)) = Inr fs1" and
    w': "w' = w\<lparr>store := AList.update (sandbox_path rt rel) (File c) fs1\<rparr>"
    by blast
  from mkdir_parents_distinct [OF mk assms(2)] show ?thesis
    by (simp add: w' distinct_update)
qed

lemma write_files_effect:
  assumes "write_files rt ws w0 = Some w"
  shows "(is_file (store w) x
            \<longleftrightarrow> x \<in> (\<lambda>(p, c). sandbox_path rt p) ` set ws \<or> is_file (store w0) x)
       \<and> (is_dir (store w0) d \<longrightarrow> is_dir (store w) d)
       \<and> (distinct (map fst (store w0)) \<longrightarrow> distinct (map fst (store w)))"
  using assms
proof (induction ws arbitrary: w0)
  case Nil
  then show ?case by simp
next
  case (Cons a ws)
  obtain p c where a: "a = (p, c)" by (cases a)
  from Cons.prems a obtain ack w1 where
    w1: "tool_write_file rt (PDict [(''path'', PStr p), (''content'', PStr c)]) w0 = (Inr ack, w1)"
    and rest: "write_files rt ws w1 = Some w"
    by (auto split: prod.splits sum.splits)
  from Cons.IH [OF rest] write_keeps_files [OF w1, of x] write_keeps_dirs [OF w1, of d]
    write_keeps_distinct [OF w1]
  show ?case
    using a by auto
qed

subsection \<open>The listing\<close>

lemma listed_paths:
  assumes "is_dir fs r"
  shows "set (filter (is_file fs) (glob_all fs r)) = {p. strictly_below r p \<and> is_file fs p}"
proof -
  have "p \<in> fst ` set fs" if "is_file fs p" for p
  proof -
    from that obtain c where "map_of fs p = Some (File c)"
      by (auto simp: is_file_def split: option.splits node.splits)
    then have "(p, File c) \<in> set fs" by (rule map_of_SomeD)
    then show ?thesis by (rule rev_image_eqI) simp
  qed
  with assms show ?thesis
    by (auto simp: glob_all_def)
qed

lemma listed_distinct:
  "distinct (map fst fs) \<Longrightarrow> distinct (filter (is_file fs) (glob_all fs r))"
  by (simp add: glob_all_def)

lemma empty_listing:
  assumes "is_dir fs (SANDBOX_ROOT rt)" and "list_files rt fs = []"
  shows "\<not> (strictly_below (SANDBOX_ROOT rt) p \<and> is_file fs p)"
proof -
  from assms(2) have "set (filter (is_file fs) (glob_all fs (SANDBOX_ROOT rt))) = {}"
    by (simp add: list_files_def)
  with listed_paths [OF assms(1)]
  have "{p. strictly_below (SANDBOX_ROOT rt) p \<and> is_file fs p} = {}"
    by simp
  then show ?thesis by blast
qed

lemma listing_after_writes:
  assumes root: "is_dir (store w0) (SANDBOX_ROOT rt)"
    and keys: "distinct (map fst (store w0))"
    and empty: "list_files rt (store w0) = []"
    and writes: "write_files rt ws w0 = Some w"
    and dist: "distinct (map (\<lambda>(p, c). sandbox_path rt p) ws)"
    and below: "\<forall>(p, c) \<in> set ws. strictly_below (SANDBOX_ROOT rt) (sandbox_path rt p)"
  shows "length (list_files rt (store w)) = length ws"
    and "distinct (list_files rt (store w))"
    and "set (list_files rt (store w))
         = (\<lambda>(p, c). as_posix (relative_to (sandbox_path rt p) (SANDBOX_ROOT rt))) ` set ws"
proof -
  let ?r = "SANDBOX_ROOT rt"
  let ?P = "\<lambda>(p, c). sandbox_path rt p"
  let ?name = "\<lambda>p. as_posix (relative_to p ?r)"
  let ?listed = "filter (is_file (store w)) (glob_all (store w) ?r)"
  note eff = write_files_effect [OF writes]
  have root': "is_dir (store w) ?r"
    using eff [of undefined ?r] root by blast
  have keys': "distinct (map fst (store w))"
    using eff [of undefined undefined] keys by blast
  have files: "{p. strictly_below ?r p \<and> is_file (store w) p} = ?P ` set ws"
  proof (intro set_eqI iffI)
    fix x assume "x \<in> {p. strictly_below ?r p \<and> is_file (store w) p}"
    then have "strictly_below ?r x" "is_file (store w) x" by simp_all
    with eff [of x undefined] empty_listing [OF root empty, of x]
    show "x \<in> ?P ` set ws" by blast
  next
    fix x assume x: "x \<in> ?P ` set ws"
    with below have "strictly_below ?r x" by auto
    with eff [of x undefined] x show "x \<in> {p. strictly_below ?r p \<and> is_file (store w) p}"
      by blast
  qed
  have set_listed: "set ?listed = ?P ` set ws"
    using listed_paths [OF root'] files by simp
  have dl: "distinct ?listed"
    using keys' by (rule listed_distinct)
  have "length ?listed = card (set ?listed)"
    by (rule distinct_card [OF dl, symmetric])
  also have "\<dots> = card (set (map ?P ws))"
    using set_listed by simp
  also have "\<dots> = length ws"
    using dist by (simp add: distinct_card del: set_map)
  finally show "length (list_files rt (store w)) = length ws"
    by (simp add: list_files_def)
  have mem: "\<exists>p. x = sandbox_path rt p \<and> strictly_below ?r x" if "x \<in> set ?listed" for x
  proof -
    from that have "x \<in> ?P ` set ws"
      unfolding set_listed .
    then obtain a where a: "a \<in> set ws" and x: "x = ?P a"
      by blast
    obtain p c where pc: "a = (p, c)" by (cases a)
    with a below have "strictly_below ?r (sandbox_path rt p)"
      by blast
    with x pc show ?thesis by auto
  qed
  have inj: "inj_on ?name (set ?listed)"
  proof (rule inj_onI)
    fix x y assume x: "x \<in> set ?listed" and y: "y \<in> set ?listed" and eq: "?name x = ?name y"
    from mem [OF x] obtain p where p: "x = sandbox_path rt p" "strictly_below ?r x"
      by blast
    from mem [OF y] obtain q where q: "y = sandbox_path rt q" "strictly_below ?r y"
      by blast
    have "clean (parts (relative_to x ?r))" "clean (parts (relative_to y ?r))"
      using p q below_root_relative_clean [of rt p] below_root_relative_clean [of rt q]
      by simp_all
    with p(2) q(2) show "x = y"
      using eq by (rule relative_name_inj)
  qed
  show "distinct (list_files rt (store w))"
    using dl inj by (simp add: list_files_def distinct_map)
  have "set (list_files rt (store w)) = ?name ` set ?listed"
    by (simp add: list_files_def)
  also have "\<dots> = ?name ` ?P ` set ws"
    using set_listed by simp
  also have "\<dots> = (\<lambda>(p, c). as_posix (relative_to (sandbox_path rt p) ?r)) ` set ws"
    by (auto simp: image_iff split: prod.splits)
  finally show "set (list_files rt (store w))
         = (\<lambda>(p, c). as_posix (relative_to (sandbox_path rt p) ?r)) ` set ws" .
qed

subsection \<open>Reset\<close>

lemma unlink_files_effect:
  "is_file (fold (\<lambda>p fs'. if is_file fs' p then unlink fs' p else fs') ps fs) x
   \<Longrightarrow> is_file fs x \<and> x \<notin> set ps"
proof (induction ps arbitrary: fs)
  case Nil
  then show ?case by simp
next
  case (Cons p ps)
  let ?fs1 = "if is_file fs p then unlink fs p else fs"
  from Cons.prems have "is_file (fold (\<lambda>p fs'. if is_file fs' p then unlink fs' p else fs') ps ?fs1) x"
    by simp
  from Cons.IH [OF this] have 1: "is_file ?fs1 x" and 2: "x \<notin> set ps"
    by simp_all
  from 1 have "is_file fs x \<and> x \<noteq> p"
    by (auto simp: unlink_def is_file_def delete_conv' split: if_splits)
  with 2 show ?case by simp
qed

lemma unlink_files_keys:
  "fst ` set (fold (\<lambda>p fs'. if is_file fs' p then unlink fs' p else fs') ps fs) \<subseteq> fst ` set fs"
proof (induction ps arbitrary: fs)
  case Nil
  then show ?case by simp
next
  case (Cons p ps)
  have "fst ` set (if is_file fs p then unlink fs p else fs) \<subseteq> fst ` set fs"
    using dom_delete_subset [of p fs] by (simp add: unlink_def)
  with Cons.IH [of "if is_file fs p then unlink fs p else fs"] show ?case
    by auto
qed

lemma list_files_after_reset: "list_files rt (reset_sandbox_dir rt fs) = []"
proof (cases "is_dir fs (SANDBOX_ROOT rt)")
  case False
  then have "glob_all fs (SANDBOX_ROOT rt) = []"
    by (simp add: glob_all_def)
  then have "reset_sandbox_dir rt fs = fs"
    by (simp add: reset_sandbox_dir_def)
  with False show ?thesis
    by (simp add: list_files_def glob_all_def)
next
  case True
  let ?r = "SANDBOX_ROOT rt"
  let ?fs' = "fold (\<lambda>p fs'. if is_file fs' p then unlink fs' p else fs') (glob_all fs ?r) fs"
  from True have rs: "reset_sandbox_dir rt fs = ?fs'"
    by (simp add: reset_sandbox_dir_def path_exists_def is_dir_def)
  have "\<not> is_file ?fs' x" if "x \<in> set (glob_all ?fs' ?r)" for x
  proof
    assume f: "is_file ?fs' x"
    from that have "strictly_below ?r x" and "x \<in> fst ` set ?fs'"
      by (auto simp: glob_all_def split: if_splits)
    with unlink_files_keys [of "glob_all fs ?r" fs] True have "x \<in> set (glob_all fs ?r)"
      by (auto simp: glob_all_def)
    with unlink_files_effect [OF f] show False by simp
  qed
  then have "filter (is_file ?fs') (glob_all ?fs' ?r) = []"
    by (simp add: filter_empty_conv)
  then show ?thesis
    by (simp add: rs list_files_def)
qed

text \<open>
  Claim C7, as amended. The count is that of the places written, not of the caller's
  paths: two distinct paths may resolve to one place, and a path may resolve outside the
  sandbox. Starting from a sandbox whose root directory exists and holds no file, after
  writes that are all acknowledged, to paths that resolve to pairwise distinct places
  below the root, the listing has exactly one entry for each write: it is free of
  duplicates and it is the set of the places written, each relative to the root. Any
  reordering of the same writes that is acknowledged too gives the same entries. After a
  reset of the sandbox the listing is empty.
\<close>

theorem list_files_counts_written_places:
  assumes "is_dir (store w0) (SANDBOX_ROOT rt)"
    and "distinct (map fst (store w0))"
    and "list_files rt (store w0) = []"
    and "write_files rt ws w0 = Some w"
    and "distinct (map (\<lambda>(p, c). sandbox_path rt p) ws)"
    and "\<forall>(p, c) \<in> set ws. strictly_below (SANDBOX_ROOT rt) (sandbox_path rt p)"
  shows "length (list_files rt (store w)) = length ws
     \<and> distinct (list_files rt (store w))
     \<and> set (list_files rt (store w))
         = (\<lambda>(p, c). as_posix (relative_to (sandbox_path rt p) (SANDBOX_ROOT rt))) ` set ws
     \<and> (\<forall>ws' w''. set ws' = set ws \<and> length ws' = length ws
                    \<and> write_files rt ws' w0 = Some w''
          \<longrightarrow> set (list_files rt (store w'')) = set (list_files rt (store w))
              \<and> length (list_files rt (store w'')) = length ws)
     \<and> tool_list_files rt args (snd (tool_reset_sandbox rt args' w))
         = (Inr (PDict [(''files'', PList [])]), snd (tool_reset_sandbox rt args' w))"
proof -
  let ?P = "\<lambda>(p, c). sandbox_path rt p"
  note main = listing_after_writes [OF assms]
  have other: "set (list_files rt (store w'')) = set (list_files rt (store w))
              \<and> length (list_files rt (store w'')) = length ws"
    if s: "set ws' = set ws" and l: "length ws' = length ws"
      and wr: "write_files rt ws' w0 = Some w''" for ws' w''
  proof -
    have "card (set (map ?P ws')) = card (set (map ?P ws))"
      using s by simp
    also have "\<dots> = length (map ?P ws)"
      using assms(5) by (rule distinct_card)
    finally have "card (set (map ?P ws')) = length (map ?P ws')"
      using l by simp
    then have d: "distinct (map ?P ws')"
      by (rule card_distinct)
    have b: "\<forall>(p, c) \<in> set ws'. strictly_below (SANDBOX_ROOT rt) (sandbox_path rt p)"
      using assms(6) s by simp
    from listing_after_writes [OF assms(1-3) wr d b] main s l show ?thesis
      by simp
  qed
  have "tool_list_files rt args (snd (tool_reset_sandbox rt args' w))
         = (Inr (PDict [(''files'', PList [])]), snd (tool_reset_sandbox rt args' w))"
    by (simp add: tool_list_files_def tool_reset_sandbox_def list_files_after_reset)
  with main other show ?thesis
    by blast
qed

theorem list_files_counts_written_places_witness:
  "length (list_files sample_runtime
     (store (the (write_files sample_runtime [(''a/b.txt'', ''hello''), (''c.txt'', ''x'')]
                    sample_world)))) = 2
   \<and> distinct (list_files sample_runtime
     (store (the (write_files sample_runtime [(''a/b.txt'', ''hello''), (''c.txt'', ''x'')]
                    sample_world))))"
proof -
  let ?ws = "[(''a/b.txt'', ''hello''), (''c.txt'', ''x'')]"
  let ?w = "the (write_files sample_runtime ?ws sample_world)"
  have r: "SANDBOX_ROOT sample_runtime = PurePath ''/'' [''srv'', ''lab'', ''sandbox'']"
    by (simp add: SANDBOX_ROOT_parts sample_runtime_def)
  have p1: "sandbox_path sample_runtime ''a/b.txt''
      = PurePath ''/'' [''srv'', ''lab'', ''sandbox'', ''a'', ''b.txt'']"
    by code_simp
  have p2: "sandbox_path sample_runtime ''c.txt''
      = PurePath ''/'' [''srv'', ''lab'', ''sandbox'', ''c.txt'']"
    by code_simp
  have 1: "is_dir (store sample_world) (SANDBOX_ROOT sample_runtime)"
    by (simp add: r is_dir_def has_nul_def sample_world_def)
  have 2: "distinct (map fst (store sample_world))"
    by (simp add: sample_world_def)
  have 3: "list_files sample_runtime (store sample_world) = []"
    by code_simp
  have "write_files sample_runtime ?ws sample_world \<noteq> None"
    by code_simp
  then have 4: "write_files sample_runtime ?ws sample_world = Some ?w"
    by simp
  have 5: "distinct (map (\<lambda>(p, c). sandbox_path sample_runtime p) ?ws)"
    by (simp add: p1 p2)
  have 6: "\<forall>(p, c) \<in> set ?ws.
             strictly_below (SANDBOX_ROOT sample_runtime) (sandbox_path sample_runtime p)"
    by (simp add: p1 p2 r strictly_below_def)
  from list_files_counts_written_places [OF 1 2 3 4 5 6, of PNone PNone] show ?thesis
    by simp
qed

text \<open>
  Claim C7 as stated fails: from the empty sandbox, the two distinct paths \<^verbatim>\<open>a..b\<close> and
  \<^verbatim>\<open>ab\<close> are both written with success, and the listing has one entry.
\<close>

theorem two_paths_one_entry:
  "list_files sample_runtime (store sample_world) = []
   \<and> map_option (\<lambda>w. list_files sample_runtime (store w))
       (write_files sample_runtime [(''a..b'', ''x''), (''ab'', ''y'')] sample_world)
     = Some [''ab'']"
  by code_simp

end
